theory Spec2Isabelle
  imports Complex_Main "HOL-Library.Sublist"
begin

section \<open>Onset post-processing of the GuitarAccuracy scripts\<close>

text \<open>
  Two Python scripts are embedded: \<^verbatim>\<open>AubioOnset.py\<close> (the first script) and
  \<^verbatim>\<open>scripts/librosa_onset_detection.py\<close> (the second script).

  Onset times are Python floats, that is binary64 numbers. A finite float is the real
  number it denotes, and every arithmetic operation of the scripts on floats is the exact
  operation followed by the rounding of the interpreter, which is a parameter of the model
  (record \<open>float_arith\<close> below). Comparisons are exact. Times reported by the detectors
  are finite and far from the overflow range, so differences of times are finite as well.
  The command-line float \<^verbatim>\<open>--min-db\<close> may also be infinite or not a number.

  The onset and beat detectors of aubio and librosa, the file system and the output
  streams are external: their answers are parameters of the model.
\<close>

subsection \<open>Exceptions\<close>

text \<open>
  Exceptions of class \<^verbatim>\<open>Exception\<close> as values; \<open>LibraryError\<close> stands for whatever
  an external library call raises. The string is what \<^verbatim>\<open>str(e)\<close> gives.
\<close>

datatype py_error =
    ZeroDivisionError
  | OverflowError string
  | ValueError string
  | AttributeError string
  | OSError string
  | LibraryError string

fun message :: "py_error \<Rightarrow> string" where
  "message ZeroDivisionError = ''division by zero''"
| "message (OverflowError m) = m"
| "message (ValueError m) = m"
| "message (AttributeError m) = m"
| "message (OSError m) = m"
| "message (LibraryError m) = m"

definition then_do :: "py_error + 'a \<Rightarrow> ('a \<Rightarrow> py_error + 'b) \<Rightarrow> py_error + 'b" where
  "then_do r k = (case r of Inl e \<Rightarrow> Inl e | Inr v \<Rightarrow> k v)"

subsection \<open>Float arithmetic of the interpreter\<close>

text \<open>
  \<open>fl\<close> rounds a real number to the nearest binary64 number; \<open>overflows\<close> tells
  whether an exact result is too large for a float; \<open>ten_pow\<close> is \<^verbatim>\<open>10 ** e\<close> for a
  finite float \<open>e\<close>, which goes through the C library and raises \<^verbatim>\<open>OverflowError\<close>
  when the power is out of range.
\<close>

record float_arith =
  fl :: "real \<Rightarrow> real"
  overflows :: "real \<Rightarrow> bool"
  ten_pow :: "real \<Rightarrow> py_error + real"

text \<open>\<^verbatim>\<open>a - b\<close> and \<^verbatim>\<open>a * b\<close> on floats.\<close>

definition fsub :: "float_arith \<Rightarrow> real \<Rightarrow> real \<Rightarrow> real" where
  "fsub F a b = fl F (a - b)"

definition fmul :: "float_arith \<Rightarrow> real \<Rightarrow> real \<Rightarrow> real" where
  "fmul F a b = fl F (a * b)"

text \<open>
  \<^verbatim>\<open>a / b\<close> on two integers: the correctly rounded quotient; a zero divisor and a
  quotient beyond the floats raise.
\<close>

definition truediv :: "float_arith \<Rightarrow> int \<Rightarrow> int \<Rightarrow> py_error + real" where
  "truediv F a b =
     (if b = 0 then Inl ZeroDivisionError
      else if overflows F (real_of_int a / real_of_int b)
        then Inl (OverflowError ''integer division result too large for a float'')
      else Inr (fl F (real_of_int a / real_of_int b)))"

text \<open>
  What the proofs use of binary64 rounding to nearest: it is monotone, it leaves a
  rounded value unchanged, it maps zero to zero, and it does not flush to zero a value
  that is at least the smallest positive float.
\<close>

definition min_positive :: real where
  "min_positive = 1 / 2 ^ 1074"

definition ieee_rounding :: "float_arith \<Rightarrow> bool" where
  "ieee_rounding F \<longleftrightarrow>
     (\<forall>x y. x \<le> y \<longrightarrow> fl F x \<le> fl F y)
     \<and> (\<forall>x. fl F (fl F x) = fl F x)
     \<and> fl F 0 = 0
     \<and> (\<forall>x. min_positive \<le> x \<longrightarrow> 0 < fl F x)"

text \<open>A float as the command line accepts it (\<^verbatim>\<open>type=float\<close>).\<close>

datatype pyfloat = Fin real | PInf | NInf | NaN

text \<open>\<^verbatim>\<open>x > m\<close> for a finite \<open>x\<close>.\<close>

fun py_gt :: "real \<Rightarrow> pyfloat \<Rightarrow> bool" where
  "py_gt x (Fin m) = (x > m)"
| "py_gt x PInf = False"
| "py_gt x NInf = True"
| "py_gt x NaN = False"

subsection \<open>First script: policy selection (AubioOnset.py, lines 24-48)\<close>

record detection_config =
  onset_method :: string
  threshold :: real
  window_size :: int
  hop_size :: int

definition win_s :: int where
  "win_s = 512"

definition hop_s :: int where
  "hop_s = win_s div 2"

definition select_policy :: "int \<Rightarrow> detection_config" where
  "select_policy expected_notes =
     (if expected_notes \<le> 8 then
        \<lparr>onset_method = ''hfc'', threshold = 0.3, window_size = win_s, hop_size = hop_s\<rparr>
      else if expected_notes \<le> 16 then
        \<lparr>onset_method = ''default'', threshold = 0.5, window_size = win_s, hop_size = hop_s\<rparr>
      else
        \<lparr>onset_method = ''energy'', threshold = 0.7, window_size = win_s, hop_size = hop_s\<rparr>)"

subsection \<open>First script: refractory suppression (AubioOnset.py, lines 73-84)\<close>

text \<open>
  \<^verbatim>\<open>min_wait_frames * hop_s / samplerate\<close>: an exact integer product, then a true
  division. The sample rate is aubio's unsigned 32-bit integer.
\<close>

definition min_wait_seconds :: "float_arith \<Rightarrow> int \<Rightarrow> nat \<Rightarrow> py_error + real" where
  "min_wait_seconds F min_wait_frames samplerate =
     truediv F (min_wait_frames * hop_s) (int samplerate)"

text \<open>
  One iteration of the \<^verbatim>\<open>for onset_time in onsets\<close> loop; the loop state is the
  pair \<^verbatim>\<open>(filtered_onsets, last_onset)\<close>.
\<close>

definition refractory_step ::
  "float_arith \<Rightarrow> real \<Rightarrow> real list \<times> real \<Rightarrow> real \<Rightarrow> real list \<times> real" where
  "refractory_step F g st onset_time =
     (case st of (filtered_onsets, last_onset) \<Rightarrow>
        if fsub F onset_time last_onset \<ge> g then (filtered_onsets @ [onset_time], onset_time)
        else (filtered_onsets, last_onset))"

definition refractory :: "float_arith \<Rightarrow> real \<Rightarrow> real list \<Rightarrow> real list" where
  "refractory F g onsets = fst (foldl (refractory_step F g) ([], - g) onsets)"

text \<open>Lines 74-84: the guard, the gap and the loop.\<close>

definition refractory_stage ::
  "float_arith \<Rightarrow> int \<Rightarrow> nat \<Rightarrow> real list \<Rightarrow> py_error + real list" where
  "refractory_stage F min_wait_frames samplerate onsets =
     (if min_wait_frames > 0 then
        then_do (min_wait_seconds F min_wait_frames samplerate) (\<lambda>g.
        Inr (refractory F g onsets))
      else Inr onsets)"

text \<open>
  The specification's wording of the same stage: keep the first onset unconditionally,
  then keep each later onset only if its time minus the last kept time is at least \<open>g\<close>,
  moving the last kept time only on a keep. The subtraction is the script's, on floats.
\<close>

fun keep_after :: "float_arith \<Rightarrow> real \<Rightarrow> real \<Rightarrow> real list \<Rightarrow> real list" where
  "keep_after F g last_kept [] = []"
| "keep_after F g last_kept (t # ts) =
     (if fsub F t last_kept \<ge> g then t # keep_after F g t ts else keep_after F g last_kept ts)"

fun spec_refractory :: "float_arith \<Rightarrow> real \<Rightarrow> real list \<Rightarrow> real list" where
  "spec_refractory F g [] = []"
| "spec_refractory F g (t # ts) = t # keep_after F g t ts"

definition gap_ok :: "float_arith \<Rightarrow> real \<Rightarrow> real \<Rightarrow> real \<Rightarrow> bool" where
  "gap_ok F g a b = (fsub F b a \<ge> g)"

subsection \<open>First script: edge suppression and the whole chain (lines 86-103)\<close>

definition min_onset_time :: real where
  "min_onset_time = 0.1"

definition max_recording_time :: real where
  "max_recording_time = 15.0"

definition leading_edge :: "real list \<Rightarrow> real list" where
  "leading_edge onsets = filter (\<lambda>onset. onset \<ge> min_onset_time) onsets"

definition trailing_edge :: "real list \<Rightarrow> real list" where
  "trailing_edge onsets = filter (\<lambda>onset. onset \<le> max_recording_time) onsets"

definition edge_suppression :: "real list \<Rightarrow> real list" where
  "edge_suppression onsets = trailing_edge (leading_edge onsets)"

text \<open>
  Lines 73-103 of \<^verbatim>\<open>detect_onsets_aubio\<close>, from the raw onset list to the returned
  one. The refractory stage runs only under the guard \<^verbatim>\<open>min_wait_frames > 0\<close>.
\<close>

definition filter_chain ::
  "float_arith \<Rightarrow> int \<Rightarrow> nat \<Rightarrow> real list \<Rightarrow> py_error + real list" where
  "filter_chain F min_wait_frames samplerate onsets =
     then_do (refractory_stage F min_wait_frames samplerate onsets) (\<lambda>onsets.
     Inr (edge_suppression onsets))"

subsection \<open>Second script: values and external collaborators\<close>

text \<open>
  A sequence of times is either a numpy array or a plain Python list; only the former
  has the method \<^verbatim>\<open>tolist\<close>. A list comprehension always builds a plain list.
\<close>

datatype times = NdArray "real list" | PyList "real list"

definition no_tolist :: string where
  "no_tolist =
     CHR 0x27 # ''list'' @ CHR 0x27 # '' object has no attribute '' @ CHR 0x27 # ''tolist'' @ [CHR 0x27]"

fun tolist :: "times \<Rightarrow> py_error + real list" where
  "tolist (NdArray xs) = Inr xs"
| "tolist (PyList xs) = Inl (AttributeError no_tolist)"

record audio =
  audio_y :: "real list"
  audio_sr :: nat

text \<open>
  The librosa calls of the script. Each may raise. Arguments that the script fixes
  (\<^verbatim>\<open>hop_length=512\<close>, \<^verbatim>\<open>fmax=8000\<close>, the peak-picking windows) are left out; the ones
  that differ between the three methods (\<^verbatim>\<open>delta\<close>, \<^verbatim>\<open>wait\<close>, \<^verbatim>\<open>tightness\<close>) are passed.
\<close>

record librosa =
  load :: "string \<Rightarrow> py_error + audio"
  onset_strength :: "audio \<Rightarrow> py_error + real list"
  onset_detect :: "real list \<Rightarrow> nat \<Rightarrow> real \<Rightarrow> nat \<Rightarrow> py_error + real list"
  beat_track :: "real list \<Rightarrow> nat \<Rightarrow> nat \<Rightarrow> py_error + real list"
  frames_to_time :: "real list \<Rightarrow> nat \<Rightarrow> py_error + real list"

subsection \<open>Second script: the energy threshold (lines 31, 76, 106, 151)\<close>

text \<open>
  \<^verbatim>\<open>10 ** (min_db / 20.0)\<close>. The division by the non-zero constant never raises; the
  power raises when it is out of range. An infinite or undefined \<^verbatim>\<open>min_db\<close> goes
  through without an exception.
\<close>

fun db_to_linear :: "float_arith \<Rightarrow> pyfloat \<Rightarrow> py_error + pyfloat" where
  "db_to_linear F (Fin x) = then_do (ten_pow F (fl F (x / 20.0))) (\<lambda>p. Inr (Fin p))"
| "db_to_linear F PInf = Inr PInf"
| "db_to_linear F NInf = Inr (Fin 0)"
| "db_to_linear F NaN = Inr NaN"

text \<open>\<^verbatim>\<open>int(x)\<close> on a float truncates towards zero.\<close>

definition py_int :: "real \<Rightarrow> int" where
  "py_int x = (if 0 \<le> x then \<lfloor>x\<rfloor> else \<lceil>x\<rceil>)"

text \<open>\<^verbatim>\<open>xs[start:stop]\<close>: negative bounds count from the end, and both are clipped.\<close>

definition slice_bound :: "nat \<Rightarrow> int \<Rightarrow> nat" where
  "slice_bound n i = (if i < 0 then nat (max 0 (int n + i)) else min (nat i) n)"

definition py_slice :: "'a list \<Rightarrow> int \<Rightarrow> int \<Rightarrow> 'a list" where
  "py_slice xs start stop =
     (let a = slice_bound (length xs) start; b = slice_bound (length xs) stop
      in take (b - a) (drop a xs))"

text \<open>
  \<^verbatim>\<open>np.max(np.abs(y[int(t*sr):int(t*sr)+1024]))\<close>; the product is a float product, and
  the maximum of an empty array raises.
\<close>

definition peak :: "float_arith \<Rightarrow> audio \<Rightarrow> real \<Rightarrow> py_error + real" where
  "peak F a t =
     (let start = py_int (fmul F t (real (audio_sr a))) in
      case py_slice (audio_y a) start (start + 1024) of
        [] \<Rightarrow> Inl (ValueError ''zero-size array to reduction operation maximum which has no identity'')
      | v # vs \<Rightarrow> Inr (Max (set (map abs (v # vs)))))"

text \<open>The list comprehension, left to right; the first failing element aborts it.\<close>

fun energy_filter :: "float_arith \<Rightarrow> audio \<Rightarrow> pyfloat \<Rightarrow> real list \<Rightarrow> py_error + real list" where
  "energy_filter F a min_linear [] = Inr []"
| "energy_filter F a min_linear (t # ts) =
     then_do (peak F a t) (\<lambda>p.
     then_do (energy_filter F a min_linear ts) (\<lambda>rest.
     Inr (if py_gt p min_linear then t # rest else rest)))"

subsection \<open>Second script: the three methods\<close>

definition detect_onsets_only ::
  "float_arith \<Rightarrow> librosa \<Rightarrow> audio \<Rightarrow> pyfloat \<Rightarrow> py_error + real list" where
  "detect_onsets_only F L a min_linear =
     then_do (onset_strength L a) (\<lambda>onset_env.
     then_do (onset_detect L onset_env (audio_sr a) 0.2 10) (\<lambda>onset_frames.
     then_do (frames_to_time L onset_frames (audio_sr a)) (\<lambda>onset_times.
     then_do (energy_filter F a min_linear onset_times) (\<lambda>onset_times.
     tolist (PyList onset_times)))))"

definition detect_beats_only ::
  "float_arith \<Rightarrow> librosa \<Rightarrow> audio \<Rightarrow> pyfloat \<Rightarrow> py_error + real list" where
  "detect_beats_only F L a min_linear =
     then_do (onset_strength L a) (\<lambda>onset_env.
     then_do (beat_track L onset_env (audio_sr a) 100) (\<lambda>beat_frames.
     then_do (frames_to_time L beat_frames (audio_sr a)) (\<lambda>beat_times.
     then_do (energy_filter F a min_linear beat_times) (\<lambda>beat_times.
     tolist (PyList beat_times)))))"

text \<open>
  \<^verbatim>\<open>min(beat_times, key=lambda x: abs(x - onset))\<close> on a non-empty sequence: the first
  element whose key is minimal. The key is the absolute value of a float difference.
\<close>

definition closest_beat :: "float_arith \<Rightarrow> real \<Rightarrow> real list \<Rightarrow> real \<Rightarrow> real" where
  "closest_beat F b bs onset =
     foldl (\<lambda>best x. if \<bar>fsub F x onset\<bar> < \<bar>fsub F best onset\<bar> then x else best) b bs"

definition beat_threshold :: real where
  "beat_threshold = 0.2"

text \<open>
  Lines 153-171 of \<^verbatim>\<open>detect_combined\<close>. The onsets arrive as the plain list built by
  the energy comprehension, the beats as the array of \<^verbatim>\<open>frames_to_time\<close>. In
  \<^verbatim>\<open>len(onset_times) * 0.3\<close> the literal is a float and the product a float product.
\<close>

definition beat_proximity :: "float_arith \<Rightarrow> real list \<Rightarrow> real list \<Rightarrow> py_error + real list" where
  "beat_proximity F onset_times beat_times =
     (case beat_times of
        b # bs \<Rightarrow>
          (let filtered_onsets =
                 filter (\<lambda>onset. \<bar>fsub F (closest_beat F b bs onset) onset\<bar> < beat_threshold)
                   onset_times
           in if real (length filtered_onsets) < fmul F (real (length onset_times)) (fl F 0.3)
              then tolist (PyList onset_times)
              else Inr filtered_onsets)
      | [] \<Rightarrow> tolist (PyList onset_times))"

definition detect_combined ::
  "float_arith \<Rightarrow> librosa \<Rightarrow> audio \<Rightarrow> pyfloat \<Rightarrow> py_error + real list" where
  "detect_combined F L a min_linear =
     then_do (onset_strength L a) (\<lambda>onset_env.
     then_do (onset_detect L onset_env (audio_sr a) 0.15 8) (\<lambda>onset_frames.
     then_do (beat_track L onset_env (audio_sr a) 80) (\<lambda>beat_frames.
     then_do (frames_to_time L onset_frames (audio_sr a)) (\<lambda>onset_times.
     then_do (frames_to_time L beat_frames (audio_sr a)) (\<lambda>beat_times.
     then_do (energy_filter F a min_linear onset_times) (\<lambda>onset_times.
     beat_proximity F onset_times beat_times))))))"

subsection \<open>Second script: the entry point (lines 14-44)\<close>

text \<open>The body of the \<^verbatim>\<open>try\<close> block, in the order of its statements.\<close>

definition try_body ::
  "float_arith \<Rightarrow> librosa \<Rightarrow> string \<Rightarrow> pyfloat \<Rightarrow> string \<Rightarrow> py_error + real list" where
  "try_body F L audio_file min_db method =
     then_do (load L audio_file) (\<lambda>a.
     then_do (db_to_linear F min_db) (\<lambda>min_linear.
       if method = ''onset'' then detect_onsets_only F L a min_linear
       else if method = ''beat'' then detect_beats_only F L a min_linear
       else if method = ''combined'' then detect_combined F L a min_linear
       else Inl (ValueError (''Unknown method: '' @ method))))"

text \<open>
  What the caller observes, and the lines written to standard error. The first
  component is \<open>Inl\<close> when an exception leaves the function.
\<close>

definition detect_onsets_librosa ::
  "float_arith \<Rightarrow> librosa \<Rightarrow> string \<Rightarrow> pyfloat \<Rightarrow> string
     \<Rightarrow> (py_error + real list) \<times> string list" where
  "detect_onsets_librosa F L audio_file min_db method =
     (case try_body F L audio_file min_db method of
        Inr onset_times \<Rightarrow> (Inr onset_times, [])
      | Inl e \<Rightarrow> (Inr [], [''Error processing '' @ audio_file @ '': '' @ message e]))"

subsection \<open>Second script: the command line and the result document (lines 173-204)\<close>

record args =
  arg_audio_file :: string
  arg_min_db :: pyfloat
  arg_method :: string
  arg_output :: "string option"

datatype json =
    JNumber pyfloat
  | JInteger int
  | JString string
  | JArray "json list"
  | JObject "(string \<times> json) list"

datatype destination = Stdout | File string

text \<open>
  The file system and the output streams: whether a path exists, and whether opening
  the destination and writing the document to it succeeds.
\<close>

record system =
  path_exists :: "string \<Rightarrow> bool"
  write_out :: "destination \<Rightarrow> py_error + unit"

datatype run =
    Exit nat
  | Raised py_error
  | Emitted destination json "string list"

text \<open>\<^verbatim>\<open>if args.output:\<close> is false for a missing and for an empty path.\<close>

definition destination_of :: "args \<Rightarrow> destination" where
  "destination_of a =
     (case arg_output a of None \<Rightarrow> Stdout | Some p \<Rightarrow> if p = [] then Stdout else File p)"

text \<open>The dictionary \<^verbatim>\<open>result\<close> of lines 192-197.\<close>

definition result_document :: "real list \<Rightarrow> args \<Rightarrow> json" where
  "result_document onset_times a =
     JObject
       [(''onset_times'', JArray (map (\<lambda>t. JNumber (Fin t)) onset_times)),
        (''method'', JString (arg_method a)),
        (''min_db'', JNumber (arg_min_db a)),
        (''count'', JInteger (int (length onset_times)))]"

text \<open>
  \<^verbatim>\<open>main\<close> after the command line has been split into options: argparse refuses
  a method outside its \<^verbatim>\<open>choices\<close> with status 2, a missing file ends the run
  with status 1. The write at the end is not inside any \<^verbatim>\<open>try\<close>: an exception
  there ends the run.
\<close>

definition main :: "float_arith \<Rightarrow> librosa \<Rightarrow> system \<Rightarrow> args \<Rightarrow> run" where
  "main F L S a =
     (if arg_method a \<notin> set [''onset'', ''beat'', ''combined''] then Exit 2
      else if \<not> path_exists S (arg_audio_file a) then Exit 1
      else
        (case detect_onsets_librosa F L (arg_audio_file a) (arg_min_db a) (arg_method a) of
           (Inl e, err) \<Rightarrow> Raised e
         | (Inr onset_times, err) \<Rightarrow>
             (case write_out S (destination_of a) of
                Inl e \<Rightarrow> Raised e
              | Inr u \<Rightarrow> Emitted (destination_of a) (result_document onset_times a) err)))"

subsection \<open>A concrete environment\<close>

text \<open>
  Arithmetic that rounds nothing. It agrees with binary64 wherever every operand and
  result is a dyadic number of few bits, which is the case in all the runs below except
  for the value of the power, of which only the comparison with 0.5 matters.
\<close>

definition range_error :: string where
  "range_error =
     ''(34, '' @ CHR 0x27 # ''Numerical result out of range'' @ CHR 0x27 # '')''"

definition demo_arith :: float_arith where
  "demo_arith =
     \<lparr>fl = (\<lambda>x. x),
      overflows = (\<lambda>x. 2 ^ 1024 \<le> \<bar>x\<bar>),
      ten_pow = (\<lambda>e. if 308 < e then Inl (OverflowError range_error) else Inr (10 powr e))\<rparr>"

text \<open>
  A small clip and stand-ins for the detectors: eight samples at 1 Hz, onsets reported
  at 1, 2, 3, 4 and 5 s, one beat at 100 s.
\<close>

definition demo_audio :: audio where
  "demo_audio = \<lparr>audio_y = [0.5, 0.5, 0.5, 0.5, 0.5, 0.5, 0.5, 0.5], audio_sr = 1\<rparr>"

definition demo_librosa :: librosa where
  "demo_librosa =
     \<lparr>load = (\<lambda>f. if f = ''results.wav'' then Inr demo_audio
                   else Inl (LibraryError ''cannot open file'')),
      onset_strength = (\<lambda>a. Inr [0, 1, 1, 1, 1, 1, 0, 0]),
      onset_detect = (\<lambda>env rate delta wait. Inr [1, 2, 3, 4, 5]),
      beat_track = (\<lambda>env rate tightness. Inr [100]),
      frames_to_time = (\<lambda>frames rate. Inr frames)\<rparr>"

text \<open>The same environment with two beats an eighth of a second after the onsets 1 s and 3 s.\<close>

definition demo_librosa_beats :: librosa where
  "demo_librosa_beats =
     demo_librosa\<lparr>beat_track := (\<lambda>env rate tightness. Inr [9 / 8, 25 / 8])\<rparr>"

text \<open>Only the clip exists, and only the standard output can be written.\<close>

definition demo_system :: system where
  "demo_system =
     \<lparr>path_exists = (\<lambda>p. p = ''results.wav''),
      write_out = (\<lambda>d. case d of Stdout \<Rightarrow> Inr ()
                         | File p \<Rightarrow> Inl (OSError ''No such file or directory''))\<rparr>"

definition demo_args :: "string \<Rightarrow> string option \<Rightarrow> args" where
  "demo_args m out =
     \<lparr>arg_audio_file = ''results.wav'', arg_min_db = Fin (- 40), arg_method = m,
      arg_output = out\<rparr>"

section \<open>Properties of the first script\<close>

subsection \<open>Rounding\<close>

lemma then_do_Inl: "then_do (Inl e) k = Inl e"
  by (simp add: then_do_def)

lemma then_do_Inr: "then_do (Inr v) k = k v"
  by (simp add: then_do_def)

lemma fl_mono: "ieee_rounding F \<Longrightarrow> x \<le> y \<Longrightarrow> fl F x \<le> fl F y"
  by (simp add: ieee_rounding_def)

lemma fl_idem: "ieee_rounding F \<Longrightarrow> fl F (fl F x) = fl F x"
  by (simp add: ieee_rounding_def)

lemma fl_zero: "ieee_rounding F \<Longrightarrow> fl F 0 = 0"
  by (simp add: ieee_rounding_def)

lemma fl_pos: "ieee_rounding F \<Longrightarrow> min_positive \<le> x \<Longrightarrow> 0 < fl F x"
  by (simp add: ieee_rounding_def)

lemma fsub_pos_less:
  assumes "ieee_rounding F" and "0 < fsub F b a"
  shows "a < b"
proof (rule ccontr)
  assume "\<not> a < b"
  then have "b - a \<le> 0" by simp
  with assms(1) have "fl F (b - a) \<le> fl F 0" by (rule fl_mono)
  with assms show False by (simp add: fsub_def fl_zero)
qed

lemma first_onset_kept:
  assumes "ieee_rounding F" and "fl F g = g" and "0 \<le> t"
  shows "g \<le> fsub F t (- g)"
proof -
  from assms(3) have "g \<le> t - (- g)" by simp
  with assms(1) have "fl F g \<le> fl F (t - (- g))" by (rule fl_mono)
  with assms(2) show ?thesis by (simp add: fsub_def)
qed

lemma min_wait_seconds_Inr:
  assumes "min_wait_seconds F mwf rate = Inr g"
  shows "rate \<noteq> 0"
    and "\<not> overflows F (real_of_int (mwf * 256) / real rate)"
    and "g = fl F (real_of_int (mwf * 256) / real rate)"
  using assms
  by (simp_all add: min_wait_seconds_def truediv_def hop_s_def win_s_def split: if_splits)

lemma min_wait_seconds_returns:
  assumes "0 < rate" and "\<not> overflows F (real_of_int (mwf * 256) / real rate)"
  shows "min_wait_seconds F mwf rate = Inr (fl F (real_of_int (mwf * 256) / real rate))"
  using assms by (simp add: min_wait_seconds_def truediv_def hop_s_def win_s_def)

lemma min_wait_seconds_rounded:
  assumes "ieee_rounding F" and "min_wait_seconds F mwf rate = Inr g"
  shows "fl F g = g"
proof -
  from assms(2) have "g = fl F (real_of_int (mwf * 256) / real rate)"
    by (rule min_wait_seconds_Inr(3))
  then have "fl F g = fl F (fl F (real_of_int (mwf * 256) / real rate))" by simp
  also have "\<dots> = fl F (real_of_int (mwf * 256) / real rate)"
    using assms(1) by (rule fl_idem)
  finally show ?thesis using \<open>g = fl F (real_of_int (mwf * 256) / real rate)\<close> by simp
qed

lemma min_wait_seconds_pos:
  assumes "ieee_rounding F" and "0 < mwf" and "rate < 2 ^ 32"
    and "min_wait_seconds F mwf rate = Inr g"
  shows "0 < g"
proof -
  from assms(4) have r: "rate \<noteq> 0"
    by (rule min_wait_seconds_Inr(1))
  from assms(4) have g: "g = fl F (real_of_int (mwf * 256) / real rate)"
    by (rule min_wait_seconds_Inr(3))
  from assms(3) have "real rate < real (2 ^ 32)"
    by (simp only: of_nat_less_iff)
  then have "real rate \<le> 2 ^ 32" by simp
  moreover from assms(2) have "256 \<le> real_of_int (mwf * 256)" by simp
  moreover from r have "0 < real rate" by simp
  ultimately have "256 / 2 ^ 32 \<le> real_of_int (mwf * 256) / real rate"
    by (intro frac_le) simp_all
  moreover have "min_positive \<le> 256 / 2 ^ 32"
    by (simp add: min_positive_def)
  ultimately have "min_positive \<le> real_of_int (mwf * 256) / real rate" by linarith
  with assms(1) show ?thesis unfolding g by (rule fl_pos)
qed

subsection \<open>The loop and its recursive reading\<close>

lemma foldl_refractory_step:
  "fst (foldl (refractory_step F g) (acc, l) xs) = acc @ keep_after F g l xs"
  by (induction xs arbitrary: acc l) (simp_all add: refractory_step_def)

lemma refractory_keep_after: "refractory F g xs = keep_after F g (- g) xs"
  by (simp add: refractory_def foldl_refractory_step)

lemma keep_after_subseq: "subseq (keep_after F g l xs) xs"
  by (induction xs arbitrary: l) auto

lemma keep_after_successively:
  "successively (gap_ok F g) (l # keep_after F g l xs)"
  by (induction xs arbitrary: l) (simp_all add: gap_ok_def)

lemma keep_after_fixpoint:
  "successively (gap_ok F g) (l # zs) \<Longrightarrow> keep_after F g l zs = zs"
  by (induction zs arbitrary: l) (simp_all add: gap_ok_def)

lemma successively_tail: "successively P (x # xs) \<Longrightarrow> successively P xs"
  by (cases xs) simp_all

lemma refractory_subseq: "subseq (refractory F g xs) xs"
  by (simp add: refractory_keep_after keep_after_subseq)

lemma refractory_successively: "successively (gap_ok F g) (refractory F g xs)"
  using keep_after_successively [of F g "- g" xs]
  by (simp add: refractory_keep_after successively_tail)

lemma refractory_spec:
  assumes "ieee_rounding F" and "fl F g = g" and "xs = [] \<or> 0 \<le> hd xs"
  shows "refractory F g xs = spec_refractory F g xs"
proof (cases xs)
  case Nil
  then show ?thesis by (simp add: refractory_keep_after)
next
  case (Cons t ts)
  with assms(3) have "0 \<le> t" by simp
  with assms(1,2) have "g \<le> fsub F t (- g)" by (rule first_onset_kept)
  with Cons show ?thesis by (simp add: refractory_keep_after)
qed

lemma gap_ok_less:
  assumes "ieee_rounding F" and "0 < g" and "gap_ok F g a b"
  shows "a < b"
  using assms fsub_pos_less [of F b a] by (simp add: gap_ok_def)

lemma gap_ok_transp:
  assumes "ieee_rounding F" and "0 < g"
  shows "transp (gap_ok F g)"
proof (rule transpI)
  fix a b c
  assume ab: "gap_ok F g a b" and bc: "gap_ok F g b c"
  from assms ab have "a < b" by (rule gap_ok_less)
  then have "c - b \<le> c - a" by simp
  with assms(1) have "fl F (c - b) \<le> fl F (c - a)" by (rule fl_mono)
  with bc show "gap_ok F g a c" by (simp add: gap_ok_def fsub_def)
qed

lemma gap_ok_sorted_wrt:
  assumes "ieee_rounding F" and "0 < g"
  shows "sorted_wrt (gap_ok F g) (refractory F g xs)"
  using refractory_successively [of F g xs]
    successively_conv_sorted_wrt [OF gap_ok_transp [OF assms]]
  by simp

lemma gap_ok_strict:
  assumes "ieee_rounding F" and "0 < g" and "sorted_wrt (gap_ok F g) ys"
  shows "sorted_wrt (<) ys"
proof (rule sorted_wrt_mono_rel [OF _ assms(3)])
  fix x y
  assume "gap_ok F g x y"
  with assms(1,2) show "x < y" by (rule gap_ok_less)
qed

lemma subseq_sorted_wrt: "subseq ys xs \<Longrightarrow> sorted_wrt P xs \<Longrightarrow> sorted_wrt P ys"
proof (induction rule: list_emb.induct)
  case (list_emb_Nil ys)
  show ?case by simp
next
  case (list_emb_Cons xs ys y)
  then show ?case by simp
next
  case (list_emb_Cons2 x y xs ys)
  have "t \<in> set ys" if "t \<in> set xs" for t
    using list_emb_set [OF list_emb_Cons2.hyps(2) that] by auto
  with list_emb_Cons2 show ?case by auto
qed

subsection \<open>Edge suppression\<close>

lemma edge_suppression_filter:
  "edge_suppression xs = filter (\<lambda>t. min_onset_time \<le> t \<and> t \<le> max_recording_time) xs"
  by (simp add: edge_suppression_def leading_edge_def trailing_edge_def conj_commute)

lemma edge_suppression_subseq: "subseq (edge_suppression xs) xs"
  by (simp add: edge_suppression_filter)

lemma edge_suppression_idem: "edge_suppression (edge_suppression xs) = edge_suppression xs"
  by (simp add: edge_suppression_filter)

lemma edge_suppression_nonneg: "t \<in> set (edge_suppression xs) \<Longrightarrow> 0 \<le> t"
  by (simp add: edge_suppression_filter min_onset_time_def)

lemma refractory_edge_fixpoint:
  assumes "ieee_rounding F" and "0 < g" and "fl F g = g"
  shows "refractory F g (edge_suppression (refractory F g xs))
    = edge_suppression (refractory F g xs)"
proof -
  let ?zs = "edge_suppression (refractory F g xs)"
  have "sorted_wrt (gap_ok F g) (refractory F g xs)"
    using assms(1,2) by (rule gap_ok_sorted_wrt)
  then have "sorted_wrt (gap_ok F g) ?zs"
    by (simp add: edge_suppression_filter sorted_wrt_filter)
  then have succ: "successively (gap_ok F g) ?zs"
    by (rule successively_if_sorted_wrt)
  have "successively (gap_ok F g) (- g # ?zs)"
  proof (cases ?zs)
    case Nil
    then show ?thesis by simp
  next
    case (Cons z zs')
    then have "z \<in> set ?zs" by simp
    then have "0 \<le> z" by (rule edge_suppression_nonneg)
    with assms(1,3) have "g \<le> fsub F z (- g)" by (rule first_onset_kept)
    with succ Cons show ?thesis by (simp add: gap_ok_def)
  qed
  then show ?thesis
    by (simp add: refractory_keep_after [of F g ?zs] keep_after_fixpoint)
qed

subsection \<open>The chain\<close>

lemma filter_chain_off:
  assumes "filter_chain F mwf rate xs = Inr out" and "\<not> 0 < mwf"
  shows "out = edge_suppression xs"
  using assms by (simp add: filter_chain_def refractory_stage_def then_do_def)

lemma filter_chain_on:
  assumes "filter_chain F mwf rate xs = Inr out" and "0 < mwf"
  shows "\<exists>g. min_wait_seconds F mwf rate = Inr g \<and> out = edge_suppression (refractory F g xs)"
  using assms
  by (auto simp: filter_chain_def refractory_stage_def then_do_def split: sum.splits)

lemma filter_chain_subseq:
  assumes "filter_chain F mwf rate xs = Inr out"
  shows "subseq out xs"
proof (cases "0 < mwf")
  case False
  with assms have "out = edge_suppression xs" by (rule filter_chain_off)
  then show ?thesis by (simp add: edge_suppression_subseq)
next
  case True
  with assms obtain g where "out = edge_suppression (refractory F g xs)"
    using filter_chain_on by blast
  then show ?thesis
    using subseq_order.order_trans [OF edge_suppression_subseq refractory_subseq] by simp
qed

lemma filter_chain_strict:
  assumes "ieee_rounding F" and "rate < 2 ^ 32"
    and "filter_chain F mwf rate xs = Inr out" and "0 < mwf"
  shows "sorted_wrt (<) out"
proof -
  from assms(3,4) obtain g where g: "min_wait_seconds F mwf rate = Inr g"
    and out: "out = edge_suppression (refractory F g xs)"
    using filter_chain_on by blast
  from assms(1) assms(4) assms(2) g have "0 < g" by (rule min_wait_seconds_pos)
  with assms(1) have "sorted_wrt (<) (refractory F g xs)"
    by (simp add: gap_ok_strict gap_ok_sorted_wrt)
  then show ?thesis
    by (simp add: out edge_suppression_filter sorted_wrt_filter)
qed

lemma filter_chain_returns:
  assumes "mwf \<le> 0 \<or> (0 < rate \<and> \<not> overflows F (real_of_int (mwf * 256) / real rate))"
  shows "\<exists>out. filter_chain F mwf rate xs = Inr out"
proof (cases "0 < mwf")
  case False
  then show ?thesis by (simp add: filter_chain_def refractory_stage_def then_do_def)
next
  case True
  with assms have "min_wait_seconds F mwf rate
      = Inr (fl F (real_of_int (mwf * 256) / real rate))"
    by (simp add: min_wait_seconds_returns)
  with True show ?thesis by (simp add: filter_chain_def refractory_stage_def then_do_def)
qed

lemma filter_chain_fixpoint:
  assumes "ieee_rounding F" and "rate < 2 ^ 32"
    and "filter_chain F mwf rate xs = Inr out"
  shows "filter_chain F mwf rate out = Inr out"
proof (cases "0 < mwf")
  case False
  with assms(3) have "out = edge_suppression xs" by (rule filter_chain_off)
  with False show ?thesis
    by (simp add: filter_chain_def refractory_stage_def then_do_def edge_suppression_idem)
next
  case True
  with assms(3) obtain g where g: "min_wait_seconds F mwf rate = Inr g"
    and out: "out = edge_suppression (refractory F g xs)"
    using filter_chain_on by blast
  from assms(1) True assms(2) g have "0 < g" by (rule min_wait_seconds_pos)
  moreover from assms(1) g have "fl F g = g" by (rule min_wait_seconds_rounded)
  ultimately have "refractory F g out = out"
    unfolding out using assms(1) by (intro refractory_edge_fixpoint)
  moreover have "edge_suppression out = out"
    unfolding out by (rule edge_suppression_idem)
  ultimately show ?thesis
    using True g by (simp add: filter_chain_def refractory_stage_def then_do_def)
qed

subsection \<open>The concrete arithmetic\<close>

lemma demo_arith_rounding: "ieee_rounding demo_arith"
  by (simp add: ieee_rounding_def demo_arith_def min_positive_def)

section \<open>Claims about the first script\<close>

text \<open>
  C5. Refractory suppression. Let \<open>g\<close> be the float that the script computes as
  \<^verbatim>\<open>min_wait_frames * hop_s / samplerate\<close>, for a positive \<open>min_wait_frames\<close>, a positive
  sample rate and a quotient within the floats, and let the candidate times be
  non-negative and in non-decreasing order. Then the stage returns the result of its
  loop, and that result is what the specification describes: the first onset is kept
  unconditionally, each later one exactly when the script's difference between it and
  the last kept onset is at least \<open>g\<close> (a difference of exactly \<open>g\<close> is enough), the
  last kept onset moving only on a keep. The result is a subsequence of the input, and
  for every two consecutive results the script's difference is at least \<open>g\<close>.
\<close>

theorem refractory_suppression_greedy:
  assumes "ieee_rounding F"
    and "0 < min_wait_frames"
    and "0 < samplerate"
    and "\<not> overflows F (real_of_int (min_wait_frames * 256) / real samplerate)"
    and "g = fl F (real_of_int (min_wait_frames * 256) / real samplerate)"
    and "\<forall>t \<in> set onsets. 0 \<le> t"
    and "sorted onsets"
  shows "min_wait_seconds F min_wait_frames samplerate = Inr g
    \<and> refractory_stage F min_wait_frames samplerate onsets = Inr (refractory F g onsets)
    \<and> refractory F g onsets = spec_refractory F g onsets
    \<and> subseq (refractory F g onsets) onsets
    \<and> successively (\<lambda>a b. fsub F b a \<ge> g) (refractory F g onsets)"
proof -
  from assms(3,4,5) have g: "min_wait_seconds F min_wait_frames samplerate = Inr g"
    by (simp add: min_wait_seconds_returns)
  with assms(2) have stage:
    "refractory_stage F min_wait_frames samplerate onsets = Inr (refractory F g onsets)"
    by (simp add: refractory_stage_def then_do_Inr)
  from assms(1) g have "fl F g = g" by (rule min_wait_seconds_rounded)
  moreover from assms(6) have "onsets = [] \<or> 0 \<le> hd onsets"
    by (cases onsets) simp_all
  ultimately have spec: "refractory F g onsets = spec_refractory F g onsets"
    using assms(1) by (intro refractory_spec)
  have gaps: "successively (\<lambda>a b. fsub F b a \<ge> g) (refractory F g onsets)"
    using refractory_successively [of F g onsets] by (simp add: gap_ok_def [abs_def])
  have sub: "subseq (refractory F g onsets) onsets"
    by (rule refractory_subseq)
  from g stage spec sub gaps show ?thesis
    by blast
qed

theorem refractory_suppression_greedy_witness:
  "ieee_rounding demo_arith
   \<and> min_wait_seconds demo_arith 125 32000 = Inr 1
   \<and> list_all (\<lambda>t. 0 \<le> t) [0.0625, 0.5, 1.0625, 2.0625, 2.5, 16.5 :: real]
   \<and> sorted [0.0625, 0.5, 1.0625, 2.0625, 2.5, 16.5 :: real]
   \<and> refractory_stage demo_arith 125 32000 [0.0625, 0.5, 1.0625, 2.0625, 2.5, 16.5]
       = Inr [0.0625, 1.0625, 2.0625, 16.5]
   \<and> spec_refractory demo_arith 1 [0.0625, 0.5, 1.0625, 2.0625, 2.5, 16.5]
       = [0.0625, 1.0625, 2.0625, 16.5]
   \<and> subseq [0.0625, 1.0625, 2.0625, 16.5] [0.0625, 0.5, 1.0625, 2.0625, 2.5, 16.5 :: real]
   \<and> successively (\<lambda>a b. fsub demo_arith b a \<ge> 1) [0.0625, 1.0625, 2.0625, 16.5]"
proof -
  have ov: "\<not> overflows demo_arith (real_of_int (125 * 256) / real 32000)"
    by (simp add: demo_arith_def)
  have g: "(1::real) = fl demo_arith (real_of_int (125 * 256) / real 32000)"
    by (simp add: demo_arith_def)
  have nn: "\<forall>t \<in> set [0.0625, 0.5, 1.0625, 2.0625, 2.5, 16.5 :: real]. 0 \<le> t" by simp
  have so: "sorted [0.0625, 0.5, 1.0625, 2.0625, 2.5, 16.5 :: real]" by simp
  have sp: "spec_refractory demo_arith 1 [0.0625, 0.5, 1.0625, 2.0625, 2.5, 16.5]
      = [0.0625, 1.0625, 2.0625, 16.5]"
    by (simp add: fsub_def demo_arith_def)
  from refractory_suppression_greedy [OF demo_arith_rounding _ _ ov g nn so]
    demo_arith_rounding nn so sp
  show ?thesis by (simp add: fsub_def demo_arith_def)
qed

text \<open>
  C6. Leading-edge suppression drops exactly the onsets before 0.1 s, trailing-edge
  suppression exactly those after 15.0 s; together they keep exactly the onsets \<open>t\<close> with
  \<open>0.1 \<le> t \<le> 15.0\<close>, both bounds included, in their order and multiplicity.
\<close>

theorem edge_suppression_bounds:
  "leading_edge onsets = filter (\<lambda>t. \<not> t < 0.1) onsets
   \<and> trailing_edge onsets = filter (\<lambda>t. \<not> t > 15.0) onsets
   \<and> edge_suppression onsets = filter (\<lambda>t. 0.1 \<le> t \<and> t \<le> 15.0) onsets
   \<and> (\<forall>t \<in> set (edge_suppression onsets). 0.1 \<le> t \<and> t \<le> 15.0)
   \<and> (\<forall>t \<in> set onsets. 0.1 \<le> t \<and> t \<le> 15.0 \<longrightarrow> t \<in> set (edge_suppression onsets))"
  by (simp add: edge_suppression_filter leading_edge_def trailing_edge_def
      min_onset_time_def max_recording_time_def not_less)

theorem edge_suppression_bounds_witness:
  "leading_edge [0.05, 0.1, 1.0, 15.0, 16.0] = [0.1, 1.0, 15.0, 16.0]
   \<and> trailing_edge [0.05, 0.1, 1.0, 15.0, 16.0] = [0.05, 0.1, 1.0, 15.0]
   \<and> edge_suppression [0.05, 0.1, 1.0, 15.0, 16.0] = [0.1, 1.0, 15.0]
   \<and> list_all (\<lambda>t. 0.1 \<le> t \<and> t \<le> 15.0) (edge_suppression [0.05, 0.1, 1.0, 15.0, 16.0])
   \<and> (0.1::real) \<in> set (edge_suppression [0.05, 0.1, 1.0, 15.0, 16.0])
   \<and> (15.0::real) \<in> set (edge_suppression [0.05, 0.1, 1.0, 15.0, 16.0])"
  using edge_suppression_bounds [of "[0.05, 0.1, 1.0, 15.0, 16.0]"] by simp

text \<open>
  C7. The policy selector is a total function of the integer \<open>expected_notes\<close>: up to 8
  (zero and negative values included) it selects \<open>hfc\<close> with threshold 0.3, from 9 to 16
  \<open>default\<close> with 0.5, above 16 \<open>energy\<close> with 0.7; the window is always 512 samples and
  the hop 256.
\<close>

theorem select_policy_buckets:
  "(expected_notes \<le> 8 \<longrightarrow>
      onset_method (select_policy expected_notes) = ''hfc''
      \<and> threshold (select_policy expected_notes) = 0.3)
   \<and> (9 \<le> expected_notes \<and> expected_notes \<le> 16 \<longrightarrow>
      onset_method (select_policy expected_notes) = ''default''
      \<and> threshold (select_policy expected_notes) = 0.5)
   \<and> (16 < expected_notes \<longrightarrow>
      onset_method (select_policy expected_notes) = ''energy''
      \<and> threshold (select_policy expected_notes) = 0.7)
   \<and> window_size (select_policy expected_notes) = 512
   \<and> hop_size (select_policy expected_notes) = 256"
  by (simp add: select_policy_def win_s_def hop_s_def)

theorem select_policy_buckets_witness:
  "(-3::int) \<le> 8 \<and> onset_method (select_policy (-3)) = ''hfc''
     \<and> threshold (select_policy (-3)) = 0.3
   \<and> (9::int) \<le> 9 \<and> (9::int) \<le> 16 \<and> onset_method (select_policy 9) = ''default''
     \<and> threshold (select_policy 9) = 0.5
   \<and> (16::int) < 17 \<and> onset_method (select_policy 17) = ''energy''
     \<and> threshold (select_policy 17) = 0.7
   \<and> window_size (select_policy 17) = 512 \<and> hop_size (select_policy 17) = 256"
  using select_policy_buckets [of "-3"] select_policy_buckets [of 9]
    select_policy_buckets [of 17]
  by simp

text \<open>
  C8, as amended. The sample rate is aubio's unsigned 32-bit integer. The chain returns
  whenever the refractory stage is switched off, and also whenever the sample rate is
  positive and the gap is within the floats. Whatever it returns is a subsequence of its
  input, so a non-decreasing input gives a non-decreasing output; the output is strictly
  increasing when \<open>min_wait_frames\<close> is positive. With \<open>min_wait_frames \<le> 0\<close> the
  refractory stage is skipped and equal times survive, so the output is then only
  non-decreasing.
\<close>

theorem filter_chain_order:
  assumes "ieee_rounding F" and "samplerate < 2 ^ 32"
  shows "(min_wait_frames \<le> 0
        \<or> (0 < samplerate
           \<and> \<not> overflows F (real_of_int (min_wait_frames * 256) / real samplerate))
      \<longrightarrow> (\<exists>out. filter_chain F min_wait_frames samplerate onsets = Inr out))
   \<and> (\<forall>out. filter_chain F min_wait_frames samplerate onsets = Inr out \<longrightarrow>
        subseq out onsets
        \<and> (sorted onsets \<longrightarrow> sorted out)
        \<and> (0 < min_wait_frames \<longrightarrow> sorted_wrt (<) out))"
  using filter_chain_returns [of min_wait_frames samplerate F onsets]
    filter_chain_subseq [of F min_wait_frames samplerate onsets]
    filter_chain_strict [OF assms, of min_wait_frames onsets]
    subseq_sorted_wrt [of _ onsets "(\<le>)"]
  by blast

theorem filter_chain_order_witness:
  "ieee_rounding demo_arith
   \<and> (32000::nat) < 2 ^ 32
   \<and> \<not> overflows demo_arith (real_of_int (125 * 256) / real 32000)
   \<and> filter_chain demo_arith 125 32000 [0.0625, 0.5, 1.0625, 1.0625, 2.0625, 16.5]
       = Inr [1.0625, 2.0625]
   \<and> subseq [1.0625, 2.0625] [0.0625, 0.5, 1.0625, 1.0625, 2.0625, 16.5 :: real]
   \<and> sorted [0.0625, 0.5, 1.0625, 1.0625, 2.0625, 16.5 :: real]
   \<and> sorted [1.0625, 2.0625 :: real]
   \<and> (0::int) < 125
   \<and> sorted_wrt (<) [1.0625, 2.0625 :: real]"
proof -
  have b: "(32000::nat) < 2 ^ 32" by simp
  have ov: "\<not> overflows demo_arith (real_of_int (125 * 256) / real 32000)"
    by (simp add: demo_arith_def)
  have run: "filter_chain demo_arith 125 32000 [0.0625, 0.5, 1.0625, 1.0625, 2.0625, 16.5]
      = Inr [1.0625, 2.0625]"
    by (simp add: filter_chain_def refractory_stage_def min_wait_seconds_def truediv_def
        hop_s_def win_s_def then_do_def refractory_def refractory_step_def fsub_def
        demo_arith_def edge_suppression_def leading_edge_def trailing_edge_def
        min_onset_time_def max_recording_time_def)
  have so: "sorted [0.0625, 0.5, 1.0625, 1.0625, 2.0625, 16.5 :: real]" by simp
  from filter_chain_order [OF demo_arith_rounding b, of 125
      "[0.0625, 0.5, 1.0625, 1.0625, 2.0625, 16.5]"]
    demo_arith_rounding ov run so
  show ?thesis by simp
qed

text \<open>
  C8, as stated, fails: with \<open>min_wait_frames = 0\<close> the non-decreasing input
  \<open>[1.0, 1.0]\<close> is returned unchanged, and it is not strictly increasing.
\<close>

theorem filter_chain_strict_counterexample:
  "sorted [1.0, 1.0 :: real]
   \<and> filter_chain demo_arith 0 44100 [1.0, 1.0] = Inr [1.0, 1.0]
   \<and> \<not> sorted_wrt (<) [1.0, 1.0 :: real]"
  by (simp add: filter_chain_def refractory_stage_def then_do_def edge_suppression_def
      leading_edge_def trailing_edge_def min_onset_time_def max_recording_time_def)

text \<open>
  C9. The chain is idempotent: whatever list it returns, it returns that list
  unchanged when applied to it again with the same configuration. It returns whenever
  the refractory stage is switched off, and also whenever the sample rate (aubio's
  unsigned 32-bit integer) is positive and the gap is within the floats.
\<close>

theorem filter_chain_idempotent:
  assumes "ieee_rounding F" and "samplerate < 2 ^ 32"
  shows "(min_wait_frames \<le> 0
        \<or> (0 < samplerate
           \<and> \<not> overflows F (real_of_int (min_wait_frames * 256) / real samplerate))
      \<longrightarrow> (\<exists>out. filter_chain F min_wait_frames samplerate onsets = Inr out))
   \<and> (\<forall>out. filter_chain F min_wait_frames samplerate onsets = Inr out \<longrightarrow>
        filter_chain F min_wait_frames samplerate out = Inr out)"
  using filter_chain_returns [of min_wait_frames samplerate F onsets]
    filter_chain_fixpoint [OF assms, of min_wait_frames onsets]
  by blast

theorem filter_chain_idempotent_witness:
  "ieee_rounding demo_arith
   \<and> (32000::nat) < 2 ^ 32
   \<and> \<not> overflows demo_arith (real_of_int (125 * 256) / real 32000)
   \<and> filter_chain demo_arith 125 32000 [0.0625, 0.5, 1.0625, 2.0625, 2.5, 16.5]
       = Inr [1.0625, 2.0625]
   \<and> filter_chain demo_arith 125 32000 [1.0625, 2.0625] = Inr [1.0625, 2.0625]"
proof -
  have b: "(32000::nat) < 2 ^ 32" by simp
  have ov: "\<not> overflows demo_arith (real_of_int (125 * 256) / real 32000)"
    by (simp add: demo_arith_def)
  have run: "filter_chain demo_arith 125 32000 [0.0625, 0.5, 1.0625, 2.0625, 2.5, 16.5]
      = Inr [1.0625, 2.0625]"
    by (simp add: filter_chain_def refractory_stage_def min_wait_seconds_def truediv_def
        hop_s_def win_s_def then_do_def refractory_def refractory_step_def fsub_def
        demo_arith_def edge_suppression_def leading_edge_def trailing_edge_def
        min_onset_time_def max_recording_time_def)
  from filter_chain_idempotent [OF demo_arith_rounding b, of 125
      "[0.0625, 0.5, 1.0625, 2.0625, 2.5, 16.5]"]
    demo_arith_rounding ov run
  show ?thesis by simp
qed

section \<open>Properties of the second script\<close>

lemma then_do_raises:
  assumes "\<And>v. \<exists>e. k v = Inl e"
  shows "\<exists>e. then_do r k = Inl e"
  using assms by (cases r) (simp_all add: then_do_def)

lemma tolist_PyList_raises: "\<exists>e. tolist (PyList xs) = Inl e"
  by simp

lemma detect_onsets_only_raises: "\<exists>e. detect_onsets_only F L a min_linear = Inl e"
  unfolding detect_onsets_only_def
  by (intro then_do_raises tolist_PyList_raises)

lemma detect_beats_only_raises: "\<exists>e. detect_beats_only F L a min_linear = Inl e"
  unfolding detect_beats_only_def
  by (intro then_do_raises tolist_PyList_raises)

lemma detect_onsets_librosa_returns:
  "\<exists>onset_times. fst (detect_onsets_librosa F L audio_file min_db method) = Inr onset_times"
  by (simp add: detect_onsets_librosa_def split: sum.splits)

subsection \<open>The nearest beat\<close>

lemma closest_beat_fold:
  "\<bar>fsub F (closest_beat F b bs onset) onset\<bar>
    = fold min (map (\<lambda>x. \<bar>fsub F x onset\<bar>) bs) \<bar>fsub F b onset\<bar>"
  unfolding closest_beat_def
  by (induction bs arbitrary: b) (simp_all add: min_def)

lemma closest_beat_nearest:
  "\<bar>fsub F (closest_beat F b bs onset) onset\<bar> = Min ((\<lambda>x. \<bar>fsub F x onset\<bar>) ` set (b # bs))"
proof -
  have "Min ((\<lambda>x. \<bar>fsub F x onset\<bar>) ` set (b # bs))
      = Min (set (map (\<lambda>x. \<bar>fsub F x onset\<bar>) (b # bs)))"
    by simp
  also have "\<dots> = fold min (map (\<lambda>x. \<bar>fsub F x onset\<bar>) bs) \<bar>fsub F b onset\<bar>"
    by (simp only: list.map Min.set_eq_fold)
  finally show ?thesis
    by (simp add: closest_beat_fold)
qed

lemma beat_proximity_beats:
  "beat_proximity F onset_times (b # bs) =
     (let near = filter (\<lambda>onset. Min ((\<lambda>x. \<bar>fsub F x onset\<bar>) ` set (b # bs)) < 0.2) onset_times
      in if real (length near) < fmul F (real (length onset_times)) (fl F 0.3)
         then Inl (AttributeError no_tolist) else Inr near)"
  by (simp add: beat_proximity_def beat_threshold_def closest_beat_nearest Let_def)

subsection \<open>Runs in the concrete environment\<close>

lemma ten_powr_minus_two: "(10::real) powr (- 2) = 1 / 100"
proof -
  have "(10::real) powr (- 2) = inverse (10 powr 2)" by (rule powr_minus)
  also have "\<dots> = 1 / 100" by simp
  finally show ?thesis .
qed

lemma demo_threshold: "db_to_linear demo_arith (Fin (- 40)) = Inr (Fin (1 / 100))"
  by (simp add: demo_arith_def then_do_def ten_powr_minus_two)

lemma demo_energy_filter:
  "energy_filter demo_arith demo_audio (Fin (1 / 100)) [1, 2, 3, 4, 5] = Inr [1, 2, 3, 4, 5]"
  by (simp add: peak_def fmul_def demo_arith_def demo_audio_def py_slice_def slice_bound_def
      py_int_def then_do_def)

lemma demo_beat_proximity:
  "beat_proximity demo_arith [1, 2, 3, 4, 5] [100] = Inl (AttributeError no_tolist)"
  by (simp add: beat_proximity_def closest_beat_def beat_threshold_def fsub_def fmul_def
      demo_arith_def)

lemma demo_load: "load demo_librosa ''results.wav'' = Inr demo_audio"
  by (simp add: demo_librosa_def)

lemma demo_load_beats: "load demo_librosa_beats ''results.wav'' = Inr demo_audio"
  by (simp add: demo_librosa_beats_def demo_librosa_def)

lemma demo_proximity_beats:
  "beat_proximity demo_arith [1, 2, 3, 4, 5] [9 / 8, 25 / 8] = Inr [1, 3]"
  by (simp add: beat_proximity_def closest_beat_def beat_threshold_def fsub_def fmul_def
      demo_arith_def)

lemma demo_detect_combined:
  "detect_combined demo_arith demo_librosa demo_audio (Fin (1 / 100))
    = Inl (AttributeError no_tolist)"
  by (simp add: detect_combined_def demo_librosa_def then_do_Inr demo_energy_filter
      demo_beat_proximity del: energy_filter.simps)

lemma demo_detect_onsets_only:
  "detect_onsets_only demo_arith demo_librosa demo_audio (Fin (1 / 100))
    = Inl (AttributeError no_tolist)"
  by (simp add: detect_onsets_only_def demo_librosa_def then_do_Inr demo_energy_filter
      del: energy_filter.simps)

lemma demo_detect_combined_beats:
  "detect_combined demo_arith demo_librosa_beats demo_audio (Fin (1 / 100)) = Inr [1, 3]"
  by (simp add: detect_combined_def demo_librosa_beats_def demo_librosa_def then_do_Inr
      demo_energy_filter demo_proximity_beats del: energy_filter.simps)

lemma demo_combined:
  "try_body demo_arith demo_librosa ''results.wav'' (Fin (- 40)) ''combined''
    = Inl (AttributeError no_tolist)"
  by (simp add: try_body_def demo_load demo_threshold then_do_Inr demo_detect_combined
      del: db_to_linear.simps)

lemma demo_onset:
  "try_body demo_arith demo_librosa ''results.wav'' (Fin (- 40)) ''onset''
    = Inl (AttributeError no_tolist)"
  by (simp add: try_body_def demo_load demo_threshold then_do_Inr demo_detect_onsets_only
      del: db_to_linear.simps)

lemma demo_combined_beats:
  "try_body demo_arith demo_librosa_beats ''results.wav'' (Fin (- 40)) ''combined'' = Inr [1, 3]"
  by (simp add: try_body_def demo_load_beats demo_threshold then_do_Inr
      demo_detect_combined_beats del: db_to_linear.simps)

section \<open>Claims about the second script\<close>

text \<open>
  C1. The beat-proximity stage of the combined method is claimed to return the
  unfiltered onsets whenever fewer than 30 percent of them lie within 0.2 s of their
  nearest beat. The script does not: at that point the onsets are a plain list (the
  energy comprehension built it), and the fallback calls \<^verbatim>\<open>tolist\<close> on it. For
  the onsets 1, 2, 3, 4, 5 and the single beat 100 no onset is near the beat, the stage
  raises, and the entry point logs the error and returns the empty list.
\<close>

theorem beat_proximity_fallback_raises:
  "filter (\<lambda>onset. \<bar>fsub demo_arith (closest_beat demo_arith 100 [] onset) onset\<bar> < beat_threshold)
      [1, 2, 3, 4, 5] = []
   \<and> beat_proximity demo_arith [1, 2, 3, 4, 5] [100] = Inl (AttributeError no_tolist)
   \<and> detect_onsets_librosa demo_arith demo_librosa ''results.wav'' (Fin (- 40)) ''combined''
       = (Inr [], [''Error processing results.wav: '' @ no_tolist])"
proof -
  have near: "filter
      (\<lambda>onset. \<bar>fsub demo_arith (closest_beat demo_arith 100 [] onset) onset\<bar> < beat_threshold)
      [1, 2, 3, 4, 5] = []"
    by (simp add: closest_beat_def beat_threshold_def fsub_def demo_arith_def)
  have run: "detect_onsets_librosa demo_arith demo_librosa ''results.wav'' (Fin (- 40)) ''combined''
       = (Inr [], [''Error processing results.wav: '' @ no_tolist])"
    by (simp add: detect_onsets_librosa_def demo_combined)
  from near demo_beat_proximity run show ?thesis
    by (intro conjI)
qed

text \<open>
  C2. For an audio file that loads, the methods \<open>onset\<close> and \<open>beat\<close> make the entry
  point return the empty list, whatever the detectors report and whatever the threshold:
  either an earlier step raises, or the final \<^verbatim>\<open>tolist\<close> on the plain list does, and
  the handler of the entry point turns the exception into \<open>[]\<close>.
\<close>

theorem onset_and_beat_methods_return_empty:
  assumes "load L audio_file = Inr a"
    and "method = ''onset'' \<or> method = ''beat''"
  shows "fst (detect_onsets_librosa F L audio_file min_db method) = Inr []"
proof -
  have "\<exists>e. try_body F L audio_file min_db method = Inl e"
  proof (cases "db_to_linear F min_db")
    case (Inl e)
    then show ?thesis by (simp add: try_body_def assms(1) then_do_def)
  next
    case (Inr min_linear)
    with assms(2) show ?thesis
      using detect_onsets_only_raises [of F L a min_linear]
        detect_beats_only_raises [of F L a min_linear]
      by (auto simp: try_body_def assms(1) then_do_Inr)
  qed
  then show ?thesis
    by (auto simp: detect_onsets_librosa_def)
qed

theorem onset_and_beat_methods_return_empty_witness:
  "load demo_librosa ''results.wav'' = Inr demo_audio
   \<and> fst (detect_onsets_librosa demo_arith demo_librosa ''results.wav'' (Fin (- 50)) ''onset'')
       = Inr []
   \<and> fst (detect_onsets_librosa demo_arith demo_librosa ''results.wav'' (Fin (- 50)) ''beat'')
       = Inr []"
  using onset_and_beat_methods_return_empty [OF demo_load, of "''onset''" demo_arith "Fin (- 50)"]
    onset_and_beat_methods_return_empty [OF demo_load, of "''beat''" demo_arith "Fin (- 50)"]
    demo_load
  by simp

text \<open>
  C3, as amended. A name outside onset, beat and combined never makes the entry point
  raise. The audio file is loaded and the threshold converted first. When both succeed,
  the unknown-method error is raised and caught inside the function, logged to standard
  error, and the empty list is returned, whatever the detectors would report. When
  loading fails, or when the conversion overflows (a very large \<^verbatim>\<open>min_db\<close>), that
  error is logged instead, and the empty list is returned as well.
\<close>

theorem unknown_method_is_logged:
  assumes "method \<notin> {''onset'', ''beat'', ''combined''}"
  shows "detect_onsets_librosa F L audio_file min_db method =
     (Inr [],
      [''Error processing '' @ audio_file @ '': '' @
         (case load L audio_file of
            Inl e \<Rightarrow> message e
          | Inr a \<Rightarrow>
              (case db_to_linear F min_db of
                 Inl e \<Rightarrow> message e
               | Inr min_linear \<Rightarrow> ''Unknown method: '' @ method))])"
  using assms
  by (cases "load L audio_file"; cases "db_to_linear F min_db")
    (simp_all add: detect_onsets_librosa_def try_body_def then_do_def)

theorem unknown_method_is_logged_witness:
  "''tempo'' \<notin> {''onset'', ''beat'', ''combined''}
   \<and> detect_onsets_librosa demo_arith demo_librosa ''results.wav'' (Fin (- 50)) ''tempo''
       = (Inr [], [''Error processing results.wav: Unknown method: tempo''])
   \<and> detect_onsets_librosa demo_arith demo_librosa ''results.wav'' (Fin 10000) ''tempo''
       = (Inr [], [''Error processing results.wav: '' @ range_error])
   \<and> detect_onsets_librosa demo_arith demo_librosa ''missing.wav'' (Fin (- 50)) ''tempo''
       = (Inr [], [''Error processing missing.wav: cannot open file''])"
proof -
  have m: "''tempo'' \<notin> {''onset'', ''beat'', ''combined''}" by simp
  have small: "db_to_linear demo_arith (Fin (- 50)) = Inr (Fin (10 powr (- 5 / 2)))"
    by (simp add: demo_arith_def then_do_def)
  have large: "db_to_linear demo_arith (Fin 10000) = Inl (OverflowError range_error)"
    by (simp add: demo_arith_def then_do_def)
  have missing: "load demo_librosa ''missing.wav'' = Inl (LibraryError ''cannot open file'')"
    by (simp add: demo_librosa_def)
  from unknown_method_is_logged [OF m, of demo_arith demo_librosa "''results.wav''" "Fin (- 50)"]
    unknown_method_is_logged [OF m, of demo_arith demo_librosa "''results.wav''" "Fin 10000"]
    unknown_method_is_logged [OF m, of demo_arith demo_librosa "''missing.wav''" "Fin (- 50)"]
    m
  show ?thesis by (simp add: demo_load small large missing del: db_to_linear.simps)
qed

text \<open>
  C3, as stated, fails: for the name \<open>foo\<close> the entry point returns the empty list
  instead of raising, and on a file that cannot be opened it reports the load error,
  so the name is not what is checked first.
\<close>

theorem unknown_method_counterexample:
  "''foo'' \<notin> {''onset'', ''beat'', ''combined''}
   \<and> detect_onsets_librosa demo_arith demo_librosa ''results.wav'' (Fin (- 50)) ''foo''
       = (Inr [], [''Error processing results.wav: Unknown method: foo''])
   \<and> detect_onsets_librosa demo_arith demo_librosa ''missing.wav'' (Fin (- 50)) ''foo''
       = (Inr [], [''Error processing missing.wav: cannot open file''])"
  by (simp add: detect_onsets_librosa_def try_body_def demo_librosa_def demo_arith_def
      then_do_def)

text \<open>
  C4. The entry point never raises; whenever an exception is raised inside the
  \<^verbatim>\<open>try\<close> block (loading, detection or filtering), the message is written to
  standard error and the empty list is returned.
\<close>

theorem exceptions_degrade_to_empty:
  "(\<exists>onset_times. fst (detect_onsets_librosa F L audio_file min_db method) = Inr onset_times)
   \<and> (\<forall>e. try_body F L audio_file min_db method = Inl e \<longrightarrow>
        detect_onsets_librosa F L audio_file min_db method
          = (Inr [], [''Error processing '' @ audio_file @ '': '' @ message e]))"
  using detect_onsets_librosa_returns
  by (simp add: detect_onsets_librosa_def)

theorem exceptions_degrade_to_empty_witness:
  "try_body demo_arith demo_librosa ''missing.wav'' (Fin (- 50)) ''combined''
     = Inl (LibraryError ''cannot open file'')
   \<and> detect_onsets_librosa demo_arith demo_librosa ''missing.wav'' (Fin (- 50)) ''combined''
       = (Inr [], [''Error processing missing.wav: cannot open file''])"
proof -
  have r: "try_body demo_arith demo_librosa ''missing.wav'' (Fin (- 50)) ''combined''
      = Inl (LibraryError ''cannot open file'')"
    by (simp add: try_body_def demo_librosa_def then_do_def)
  from exceptions_degrade_to_empty
    [of demo_arith demo_librosa "''missing.wav''" "Fin (- 50)" "''combined''"] r
  show ?thesis by simp
qed

text \<open>
  C10. A run with an accepted method and an existing file, whose destination can be
  written, emits a document. Every emitted document is an object with exactly the keys
  \<open>onset_times\<close>, \<open>method\<close>, \<open>min_db\<close> and \<open>count\<close>, in which \<open>method\<close> and
  \<open>min_db\<close> are the run's parameters (an infinite or undefined \<open>min_db\<close> included)
  and \<open>count\<close> is the length of \<open>onset_times\<close>. Building the document never fails, and
  for an empty onset list it has the count 0.
\<close>

theorem main_emits_document:
  "(arg_method a \<in> {''onset'', ''beat'', ''combined''}
      \<and> path_exists S (arg_audio_file a)
      \<and> write_out S (destination_of a) = Inr ()
      \<longrightarrow> (\<exists>onset_times err.
            main F L S a = Emitted (destination_of a) (result_document onset_times a) err))
   \<and> (\<forall>dest doc err. main F L S a = Emitted dest doc err \<longrightarrow>
        (\<exists>onset_times. doc =
           JObject
             [(''onset_times'', JArray (map (\<lambda>t. JNumber (Fin t)) onset_times)),
              (''method'', JString (arg_method a)),
              (''min_db'', JNumber (arg_min_db a)),
              (''count'', JInteger (int (length onset_times)))]))
   \<and> result_document [] a =
        JObject
          [(''onset_times'', JArray []),
           (''method'', JString (arg_method a)),
           (''min_db'', JNumber (arg_min_db a)),
           (''count'', JInteger 0)]"
proof -
  obtain ts err where d:
    "detect_onsets_librosa F L (arg_audio_file a) (arg_min_db a) (arg_method a) = (Inr ts, err)"
    using detect_onsets_librosa_returns [of F L "arg_audio_file a" "arg_min_db a" "arg_method a"]
    by (cases "detect_onsets_librosa F L (arg_audio_file a) (arg_min_db a) (arg_method a)") auto
  show ?thesis
  proof (intro conjI impI allI)
    assume "arg_method a \<in> {''onset'', ''beat'', ''combined''}
      \<and> path_exists S (arg_audio_file a)
      \<and> write_out S (destination_of a) = Inr ()"
    then have "main F L S a = Emitted (destination_of a) (result_document ts a) err"
      by (simp add: main_def d)
    then show "\<exists>onset_times err.
        main F L S a = Emitted (destination_of a) (result_document onset_times a) err"
      by blast
  next
    fix dest doc err'
    assume "main F L S a = Emitted dest doc err'"
    then have "doc = result_document ts a"
      by (simp add: main_def d split: if_splits sum.splits)
    then have "doc =
           JObject
             [(''onset_times'', JArray (map (\<lambda>t. JNumber (Fin t)) ts)),
              (''method'', JString (arg_method a)),
              (''min_db'', JNumber (arg_min_db a)),
              (''count'', JInteger (int (length ts)))]"
      by (simp add: result_document_def)
    then show "\<exists>onset_times. doc =
           JObject
             [(''onset_times'', JArray (map (\<lambda>t. JNumber (Fin t)) onset_times)),
              (''method'', JString (arg_method a)),
              (''min_db'', JNumber (arg_min_db a)),
              (''count'', JInteger (int (length onset_times)))]"
      by (rule exI)
  next
    show "result_document [] a =
        JObject
          [(''onset_times'', JArray []),
           (''method'', JString (arg_method a)),
           (''min_db'', JNumber (arg_min_db a)),
           (''count'', JInteger 0)]"
      by (simp add: result_document_def)
  qed
qed

theorem main_emits_document_witness:
  "arg_method (demo_args ''onset'' None) \<in> {''onset'', ''beat'', ''combined''}
   \<and> path_exists demo_system (arg_audio_file (demo_args ''onset'' None))
   \<and> write_out demo_system (destination_of (demo_args ''onset'' None)) = Inr ()
   \<and> main demo_arith demo_librosa demo_system (demo_args ''onset'' None) =
       Emitted Stdout
         (JObject
           [(''onset_times'', JArray []),
            (''method'', JString ''onset''),
            (''min_db'', JNumber (Fin (- 40))),
            (''count'', JInteger 0)])
         [''Error processing results.wav: '' @ no_tolist]
   \<and> main demo_arith demo_librosa_beats demo_system (demo_args ''combined'' None) =
       Emitted Stdout
         (JObject
           [(''onset_times'', JArray [JNumber (Fin 1), JNumber (Fin 3)]),
            (''method'', JString ''combined''),
            (''min_db'', JNumber (Fin (- 40))),
            (''count'', JInteger 2)])
         []
   \<and> main demo_arith demo_librosa demo_system (demo_args ''onset'' (Some ''/no/such/dir/out.json''))
       = Raised (OSError ''No such file or directory'')"
proof -
  have r1: "main demo_arith demo_librosa demo_system (demo_args ''onset'' None) =
       Emitted Stdout
         (JObject
           [(''onset_times'', JArray []),
            (''method'', JString ''onset''),
            (''min_db'', JNumber (Fin (- 40))),
            (''count'', JInteger 0)])
         [''Error processing results.wav: '' @ no_tolist]"
    by (simp add: main_def demo_args_def demo_system_def destination_of_def
        result_document_def detect_onsets_librosa_def demo_onset)
  have r2: "main demo_arith demo_librosa_beats demo_system (demo_args ''combined'' None) =
       Emitted Stdout
         (JObject
           [(''onset_times'', JArray [JNumber (Fin 1), JNumber (Fin 3)]),
            (''method'', JString ''combined''),
            (''min_db'', JNumber (Fin (- 40))),
            (''count'', JInteger 2)])
         []"
    by (simp add: main_def demo_args_def demo_system_def destination_of_def
        result_document_def detect_onsets_librosa_def demo_combined_beats)
  have r3: "main demo_arith demo_librosa demo_system
      (demo_args ''onset'' (Some ''/no/such/dir/out.json''))
       = Raised (OSError ''No such file or directory'')"
    by (simp add: main_def demo_args_def demo_system_def destination_of_def
        detect_onsets_librosa_def demo_onset)
  from main_emits_document [of "demo_args ''onset'' None" demo_system demo_arith demo_librosa]
    r1 r2 r3
  show ?thesis by (simp add: demo_args_def demo_system_def destination_of_def)
qed

end
